theory Spec2Isabelle
  imports Main "HOL-Library.Sublist" "HOL-Library.Word"
begin

section \<open>JavaScript values as the handler sees them\<close>

text \<open>
  The tool handler of \<^verbatim>\<open>src/index.ts\<close> receives \<^verbatim>\<open>request.params.arguments\<close> as a
  value of type \<^verbatim>\<open>unknown\<close> and inspects it dynamically (\<^verbatim>\<open>typeof\<close>, truthiness,
  \<^verbatim>\<open>=== undefined\<close>). The model therefore keeps the values dynamically typed.

  A number is an IEEE double. The handler does three things with one: \<^verbatim>\<open>typeof\<close>,
  the truthiness test \<^verbatim>\<open>if (threads)\<close> and \<^verbatim>\<open>threads.toString()\<close>.
  \<^item> \<open>Integral i\<close> is the integer-valued double \<open>sint i\<close>. The 54-bit signed word
    holds exactly the integers from \<open>-2\<^sup>5\<^sup>3\<close> up to \<open>2\<^sup>5\<^sup>3 - 1\<close>: each of them is a
    double exactly, and \<^verbatim>\<open>toString\<close> prints it in plain decimal, digit for digit
    (\<open>-0\<close> is \<open>Integral 0\<close>, and prints as \<open>0\<close>).
  \<^item> \<open>NaN\<close> is the one other falsy number.
  \<^item> \<open>OtherDouble s\<close> is any other double (a fraction, an integer of larger
    magnitude such as \<open>2\<^sup>6\<^sup>0\<close>, an infinity), carried by the text \<open>s\<close> that
    \<^verbatim>\<open>Number.prototype.toString\<close> gives it: the shortest digits that read back as the
    same double, \<^verbatim>\<open>1152921504606847000\<close> for \<open>2\<^sup>6\<^sup>0\<close>. All of these are truthy.
\<close>

datatype js_number = Integral "54 word" | NaN | OtherDouble string

datatype js_value =
    JUndefined
  | JNull
  | JBoolean bool
  | JNumber js_number
  | JString string
  | JArray "js_value list"
  | JObject "(string \<times> js_value) list"

fun typeof :: "js_value \<Rightarrow> string" where
  "typeof JUndefined = ''undefined''"
| "typeof JNull = ''object''"
| "typeof (JBoolean b) = ''boolean''"
| "typeof (JNumber n) = ''number''"
| "typeof (JString s) = ''string''"
| "typeof (JArray vs) = ''object''"
| "typeof (JObject kvs) = ''object''"

text \<open>Truthiness (\<^verbatim>\<open>ToBoolean\<close>): what \<^verbatim>\<open>if (v)\<close> and \<^verbatim>\<open>!v\<close> test.\<close>

fun truthy :: "js_value \<Rightarrow> bool" where
  "truthy JUndefined = False"
| "truthy JNull = False"
| "truthy (JBoolean b) = b"
| "truthy (JNumber n) = (n \<noteq> Integral 0 \<and> n \<noteq> NaN)"
| "truthy (JString s) = (s \<noteq> [])"
| "truthy (JArray vs) = True"
| "truthy (JObject kvs) = True"

text \<open>
  Property read \<^verbatim>\<open>a.k\<close> on a value already known to be an object: an own property of a
  plain object, \<^verbatim>\<open>undefined\<close> when there is none. None of the eight names the handler
  reads is a property of an array or of a prototype.
\<close>

fun property :: "js_value \<Rightarrow> string \<Rightarrow> js_value" where
  "property (JObject kvs) k = (case map_of kvs k of None \<Rightarrow> JUndefined | Some v \<Rightarrow> v)"
| "property v k = JUndefined"

subsection \<open>Printing\<close>

definition digit_char :: "nat \<Rightarrow> char" where
  "digit_char d = ''0123456789'' ! d"

function string_of_nat :: "nat \<Rightarrow> string" where
  "string_of_nat n =
     (if n < 10 then [digit_char n] else string_of_nat (n div 10) @ [digit_char (n mod 10)])"
  by pat_completeness auto
termination
  by (relation "measure id") auto

declare string_of_nat.simps [simp del]

text \<open>\<^verbatim>\<open>Number.prototype.toString()\<close> in radix 10.\<close>

fun number_toString :: "js_number \<Rightarrow> string" where
  "number_toString (Integral i) =
     (if sint i < 0 then CHR ''-'' # string_of_nat (nat (- sint i))
      else string_of_nat (nat (sint i)))"
| "number_toString NaN = ''NaN''"
| "number_toString (OtherDouble s) = s"

text \<open>\<^verbatim>\<open>Array.prototype.join\<close> on elements already turned into strings.\<close>

fun join_strings :: "string \<Rightarrow> string list \<Rightarrow> string" where
  "join_strings sep [] = []"
| "join_strings sep [x] = x"
| "join_strings sep (x # y # ys) = x @ sep @ join_strings sep (y # ys)"

text \<open>
  \<^verbatim>\<open>ToString\<close>, as a template literal and \<^verbatim>\<open>join\<close> apply it. \<^verbatim>\<open>join\<close> prints
  \<^verbatim>\<open>undefined\<close> and \<^verbatim>\<open>null\<close> elements as the empty string; an array prints as its
  elements joined by commas.
\<close>

fun ToString :: "js_value \<Rightarrow> string" where
  "ToString JUndefined = ''undefined''"
| "ToString JNull = ''null''"
| "ToString (JBoolean b) = (if b then ''true'' else ''false'')"
| "ToString (JNumber n) = number_toString n"
| "ToString (JString s) = s"
| "ToString (JArray vs) =
     join_strings '',''
       (map (\<lambda>v. case v of JUndefined \<Rightarrow> [] | JNull \<Rightarrow> [] | _ \<Rightarrow> ToString v) vs)"
| "ToString (JObject kvs) = ''[object Object]''"

definition array_join :: "string \<Rightarrow> js_value list \<Rightarrow> string" where
  "array_join sep vs =
     join_strings sep
       (map (\<lambda>v. case v of JUndefined \<Rightarrow> [] | JNull \<Rightarrow> [] | _ \<Rightarrow> ToString v) vs)"

section \<open>Request validation: \<^verbatim>\<open>isFuzzDomainArgs\<close>\<close>

text \<open>\<^verbatim>\<open>['json', 'csv', 'list'].includes(v)\<close>: strict equality with one of the strings.\<close>

fun array_includes :: "string list \<Rightarrow> js_value \<Rightarrow> bool" where
  "array_includes xs (JString s) = (s \<in> set xs)"
| "array_includes xs v = False"

definition isFuzzDomainArgs :: "js_value \<Rightarrow> bool" where
  "isFuzzDomainArgs args =
     (if \<not> truthy args then False
      else if typeof args \<noteq> ''object'' then False
      else
        typeof (property args ''domain'') = ''string'' \<and>
        (property args ''nameservers'' = JUndefined \<or> typeof (property args ''nameservers'') = ''string'') \<and>
        (property args ''threads'' = JUndefined \<or> typeof (property args ''threads'') = ''number'') \<and>
        (property args ''format'' = JUndefined \<or> array_includes [''json'', ''csv'', ''list''] (property args ''format'')) \<and>
        (property args ''registered_only'' = JUndefined \<or> typeof (property args ''registered_only'') = ''boolean'') \<and>
        (property args ''mxcheck'' = JUndefined \<or> typeof (property args ''mxcheck'') = ''boolean'') \<and>
        (property args ''ssdeep'' = JUndefined \<or> typeof (property args ''ssdeep'') = ''boolean'') \<and>
        (property args ''banners'' = JUndefined \<or> typeof (property args ''banners'') = ''boolean''))"

text \<open>
  The bounds the tool's published \<^verbatim>\<open>inputSchema\<close> declares for \<^verbatim>\<open>threads\<close>
  (\<^verbatim>\<open>minimum: 1, maximum: 100\<close>).
\<close>

definition threads_minimum :: int where
  "threads_minimum = 1"

definition threads_maximum :: int where
  "threads_maximum = 100"

section \<open>Building the command line\<close>

text \<open>A destructuring default \<^verbatim>\<open>{ k = d }\<close> applies when the property is \<^verbatim>\<open>undefined\<close>.\<close>

definition with_default :: "js_value \<Rightarrow> js_value \<Rightarrow> js_value" where
  "with_default v d = (if v = JUndefined then d else v)"

text \<open>\<^verbatim>\<open>if (c) args.push(t1, ..., tn)\<close> as the tokens it appends.\<close>

definition push_if :: "js_value \<Rightarrow> js_value list \<Rightarrow> js_value list" where
  "push_if c ts = (if truthy c then ts else [])"

definition build_args :: "js_value \<Rightarrow> js_value list" where
  "build_args arguments =
     (let domain = property arguments ''domain'';
          nameservers = with_default (property arguments ''nameservers'') (JString ''1.1.1.1'');
          threads = with_default (property arguments ''threads'') (JNumber (Integral 50));
          format = with_default (property arguments ''format'') (JString ''json'');
          registered_only = with_default (property arguments ''registered_only'') (JBoolean True);
          mxcheck = with_default (property arguments ''mxcheck'') (JBoolean True);
          ssdeep = with_default (property arguments ''ssdeep'') (JBoolean False);
          banners = with_default (property arguments ''banners'') (JBoolean True)
      in [domain, JString ''--format'', format]
         @ push_if registered_only [JString ''--registered'']
         @ push_if nameservers [JString ''--nameservers'', nameservers]
         @ push_if threads [JString ''-t'', JString (ToString threads)]
         @ push_if mxcheck [JString ''--mxcheck'']
         @ push_if ssdeep [JString ''--ssdeep'']
         @ push_if banners [JString ''-b''])"

section \<open>The runtime the server calls into\<close>

text \<open>
  What the handler uses and the repository does not define is taken as a parameter:
  \<^item> \<open>exec\<close>: \<^verbatim>\<open>promisify(child_process.exec)\<close> with the \<^verbatim>\<open>maxBuffer\<close> option of
    \<^verbatim>\<open>execCommand\<close>, as a function of the command line and of the state \<open>'w\<close> of the
    world outside (the container runtime, its image cache, the network). It returns
    the new world and either the captured output or, for a rejected promise, the
    \<^verbatim>\<open>message\<close> of the \<^verbatim>\<open>Error\<close> it rejects with;
  \<^item> \<open>JSON_parse\<close>: \<^verbatim>\<open>JSON.parse\<close>, returning the parsed value or the \<^verbatim>\<open>message\<close> of
    the \<^verbatim>\<open>SyntaxError\<close> it throws;
  \<^item> \<open>JSON_stringify\<close>: \<^verbatim>\<open>JSON.stringify(v, null, 2)\<close>;
  \<^item> \<open>McpError_message\<close>: the \<^verbatim>\<open>message\<close> that the SDK's \<^verbatim>\<open>McpError\<close> constructor
    forms from an error code and the text passed to it.
\<close>

record exec_result =
  stdout :: string
  stderr :: string

datatype ErrorCode = MethodNotFound | InvalidParams

record 'w runtime =
  exec :: "string \<Rightarrow> 'w \<Rightarrow> (string + exec_result) \<times> 'w"
  JSON_parse :: "string \<Rightarrow> string + js_value"
  JSON_stringify :: "js_value \<Rightarrow> string"
  McpError_message :: "ErrorCode \<Rightarrow> string \<Rightarrow> string"

text \<open>The values the code throws: \<^verbatim>\<open>new Error(m)\<close> and \<^verbatim>\<open>new McpError(code, m)\<close>.\<close>

datatype js_error = Error string | McpError ErrorCode string

text \<open>\<^verbatim>\<open>error.message\<close>; every thrown value here is an instance of \<^verbatim>\<open>Error\<close>.\<close>

fun error_message :: "'w runtime \<Rightarrow> js_error \<Rightarrow> string" where
  "error_message rt (Error m) = m"
| "error_message rt (McpError c m) = McpError_message rt c m"

text \<open>
  \<^verbatim>\<open>Error.prototype.toString\<close>, which a template literal applies to a caught
  \<^verbatim>\<open>SyntaxError\<close> with message \<open>m\<close>.
\<close>

definition SyntaxError_toString :: "string \<Rightarrow> string" where
  "SyntaxError_toString m = (if m = [] then ''SyntaxError'' else ''SyntaxError: '' @ m)"

section \<open>Running commands and checking the environment\<close>

text \<open>
  The state threaded through a call: the world outside, and the commands run so far
  (\<^verbatim>\<open>execCommand\<close> logs every command it is about to run).
\<close>

type_synonym 'w state = "'w \<times> string list"

definition DOCKER_IMAGE :: string where
  "DOCKER_IMAGE = ''elceef/dnstwist''"

definition execCommand ::
  "'w runtime \<Rightarrow> string \<Rightarrow> 'w state \<Rightarrow> (js_error + exec_result) \<times> 'w state" where
  "execCommand rt command s =
     (case exec rt command (fst s) of
        (Inl m, w) \<Rightarrow> (Inl (Error m), (w, snd s @ [command]))
      | (Inr result, w) \<Rightarrow> (Inr result, (w, snd s @ [command])))"

definition ensureSetup :: "'w runtime \<Rightarrow> 'w state \<Rightarrow> (js_error + unit) \<times> 'w state" where
  "ensureSetup rt s =
     (case execCommand rt ''docker --version'' s of
        (Inl error, s1) \<Rightarrow>
          (Inl (Error ''Docker is not installed or not running. Please install Docker and try again.''), s1)
      | (Inr r1, s1) \<Rightarrow>
          (case execCommand rt (''docker image inspect '' @ DOCKER_IMAGE) s1 of
             (Inr r2, s2) \<Rightarrow> (Inr (), s2)
           | (Inl error, s2) \<Rightarrow>
               (case execCommand rt (''docker pull '' @ DOCKER_IMAGE) s2 of
                  (Inl e, s3) \<Rightarrow> (Inl e, s3)
                | (Inr r3, s3) \<Rightarrow> (Inr (), s3))))"

section \<open>The \<^verbatim>\<open>fuzz_domain\<close> tool handler\<close>

record request =
  params_name :: string
  params_arguments :: js_value

record content_item =
  item_type :: string
  item_text :: string

text \<open>The success response has no \<^verbatim>\<open>isError\<close> property: \<open>None\<close>.\<close>

record response =
  content :: "content_item list"
  isError :: "bool option"

text \<open>Parsing the captured output and printing it again (the end of the \<^verbatim>\<open>try\<close> block).\<close>

definition translate :: "'w runtime \<Rightarrow> string \<Rightarrow> js_error + string" where
  "translate rt out =
     (case JSON_parse rt out of
        Inl m \<Rightarrow> Inl (Error (''Failed to parse dnstwist output: '' @ SyntaxError_toString m))
      | Inr results \<Rightarrow> Inr (JSON_stringify rt results))"

text \<open>The command line handed to \<^verbatim>\<open>execCommand\<close> for a validated request.\<close>

definition docker_run_command :: "js_value \<Rightarrow> string" where
  "docker_run_command arguments =
     ''docker run --rm '' @ DOCKER_IMAGE @ '' '' @ array_join '' '' (build_args arguments)"

text \<open>The body of the \<^verbatim>\<open>try\<close> block: \<open>Inl\<close> is the value thrown, \<open>Inr\<close> the text returned.\<close>

definition handler_try :: "'w runtime \<Rightarrow> request \<Rightarrow> 'w state \<Rightarrow> (js_error + string) \<times> 'w state" where
  "handler_try rt request s =
     (case ensureSetup rt s of
        (Inl e, s1) \<Rightarrow> (Inl e, s1)
      | (Inr u, s1) \<Rightarrow>
          if params_name request \<noteq> ''fuzz_domain'' then
            (Inl (McpError MethodNotFound (''Unknown tool: '' @ params_name request)), s1)
          else if \<not> isFuzzDomainArgs (params_arguments request) then
            (Inl (McpError InvalidParams ''Invalid arguments for fuzz_domain''), s1)
          else
            (case execCommand rt (docker_run_command (params_arguments request)) s1 of
               (Inl e, s2) \<Rightarrow> (Inl e, s2)
             | (Inr result, s2) \<Rightarrow> (translate rt (stdout result), s2)))"

definition text_content :: "string \<Rightarrow> content_item list" where
  "text_content t = [\<lparr>item_type = ''text'', item_text = t\<rparr>]"

text \<open>What the \<^verbatim>\<open>catch\<close> block returns for the message \<open>errorMessage\<close>.\<close>

definition error_response :: "string \<Rightarrow> response" where
  "error_response errorMessage =
     \<lparr>content = text_content (''Error executing dnstwist: '' @ errorMessage),
      isError = Some True\<rparr>"

text \<open>The whole handler: the \<^verbatim>\<open>try\<close> block and its \<^verbatim>\<open>catch\<close>.\<close>

definition handler :: "'w runtime \<Rightarrow> request \<Rightarrow> 'w state \<Rightarrow> response \<times> 'w state" where
  "handler rt request s =
     (case handler_try rt request s of
        (Inr t, s') \<Rightarrow> (\<lparr>content = text_content t, isError = None\<rparr>, s')
      | (Inl error, s') \<Rightarrow> (error_response (error_message rt error), s'))"

section \<open>A sample runtime\<close>

text \<open>
  A small concrete runtime on which the theorems below are exercised. Its world is one
  bit, whether the image is in the local cache. With the container runtime installed,
  \<^verbatim>\<open>docker --version\<close> answers, \<^verbatim>\<open>docker image inspect\<close> succeeds when the image is
  cached, \<^verbatim>\<open>docker pull\<close> caches it, and any other command (the \<^verbatim>\<open>docker run\<close>) ends as
  \<open>run\<close> says; without it every command fails. \<open>JSON_parse\<close> rejects the empty string
  and answers \<open>parsed\<close> otherwise; the message of an \<^verbatim>\<open>McpError\<close> is formed as the SDK
  forms it.
\<close>

definition sample_runtime ::
  "bool \<Rightarrow> (string + exec_result) \<Rightarrow> (string + js_value) \<Rightarrow> bool runtime" where
  "sample_runtime installed run parsed =
     \<lparr>exec = (\<lambda>command cached.
         if \<not> installed then (Inl (''Command failed: '' @ command), cached)
         else if command = ''docker --version'' then
           (Inr \<lparr>stdout = ''Docker version 24.0.7'', stderr = []\<rparr>, cached)
         else if command = ''docker image inspect elceef/dnstwist'' then
           (if cached then Inr \<lparr>stdout = ''[]'', stderr = []\<rparr>
            else Inl (''Command failed: '' @ command), cached)
         else if command = ''docker pull elceef/dnstwist'' then
           (Inr \<lparr>stdout = [], stderr = []\<rparr>, True)
         else (run, cached)),
       JSON_parse = (\<lambda>s. if s = [] then Inl ''Unexpected end of JSON input'' else parsed),
       JSON_stringify = (\<lambda>v. ''[]''),
       McpError_message = (\<lambda>c m.
         ''MCP error '' @ (case c of MethodNotFound \<Rightarrow> ''-32601'' | InvalidParams \<Rightarrow> ''-32602'')
           @ '': '' @ m)\<rparr>"

text \<open>A run that prints \<open>out\<close> and exits with status 0.\<close>

definition prints :: "string \<Rightarrow> string + exec_result" where
  "prints out = Inr \<lparr>stdout = out, stderr = []\<rparr>"

text \<open>
  The same runtime, image cached, with a container run that fails as Node reports a
  failed command: the message names the command line it was given.
\<close>

definition refusing_runtime :: "bool runtime" where
  "refusing_runtime =
     (sample_runtime True (prints []) (Inr (JArray [])))
       \<lparr>exec := (\<lambda>command cached.
          if command = ''docker --version'' then (Inr \<lparr>stdout = [], stderr = []\<rparr>, cached)
          else if command = ''docker image inspect elceef/dnstwist'' then
            (Inr \<lparr>stdout = [], stderr = []\<rparr>, cached)
          else (Inl (''Command failed: '' @ command), cached))\<rparr>"

section \<open>Theorems\<close>

subsection \<open>Auxiliary lemmas\<close>

lemma typeof_string: "typeof v = ''string'' \<longleftrightarrow> (\<exists>s. v = JString s)"
  by (cases v) auto

lemma typeof_number: "typeof v = ''number'' \<longleftrightarrow> (\<exists>n. v = JNumber n)"
  by (cases v) auto

lemma typeof_boolean: "typeof v = ''boolean'' \<longleftrightarrow> (\<exists>b. v = JBoolean b)"
  by (cases v) auto

lemma array_includes_iff: "array_includes xs v \<longleftrightarrow> (\<exists>s. v = JString s \<and> s \<in> set xs)"
  by (cases v) auto

lemma isFuzzDomainArgs_iff:
  "isFuzzDomainArgs a \<longleftrightarrow>
     (\<exists>d. property a ''domain'' = JString d) \<and>
     (property a ''nameservers'' = JUndefined \<or> (\<exists>s. property a ''nameservers'' = JString s)) \<and>
     (property a ''threads'' = JUndefined \<or> (\<exists>n. property a ''threads'' = JNumber n)) \<and>
     (property a ''format'' = JUndefined \<or>
        (\<exists>f. property a ''format'' = JString f \<and> f \<in> set [''json'', ''csv'', ''list''])) \<and>
     (property a ''registered_only'' = JUndefined \<or> (\<exists>b. property a ''registered_only'' = JBoolean b)) \<and>
     (property a ''mxcheck'' = JUndefined \<or> (\<exists>b. property a ''mxcheck'' = JBoolean b)) \<and>
     (property a ''ssdeep'' = JUndefined \<or> (\<exists>b. property a ''ssdeep'' = JBoolean b)) \<and>
     (property a ''banners'' = JUndefined \<or> (\<exists>b. property a ''banners'' = JBoolean b))"
proof (cases a)
  case (JObject kvs)
  then show ?thesis
    unfolding isFuzzDomainArgs_def typeof_string typeof_number typeof_boolean array_includes_iff
    by simp
qed (simp_all add: isFuzzDomainArgs_def)

lemma valid_domain: "isFuzzDomainArgs a \<Longrightarrow> \<exists>d. property a ''domain'' = JString d"
  by (simp add: isFuzzDomainArgs_iff)

lemma valid_nameservers:
  "isFuzzDomainArgs a \<Longrightarrow>
   property a ''nameservers'' = JUndefined \<or> (\<exists>s. property a ''nameservers'' = JString s)"
  by (simp add: isFuzzDomainArgs_iff)

lemma valid_threads:
  "isFuzzDomainArgs a \<Longrightarrow>
   property a ''threads'' = JUndefined \<or> (\<exists>n. property a ''threads'' = JNumber n)"
  by (simp add: isFuzzDomainArgs_iff)

lemma valid_format:
  "isFuzzDomainArgs a \<Longrightarrow>
   property a ''format'' = JUndefined \<or>
   (\<exists>f. property a ''format'' = JString f \<and> f \<in> set [''json'', ''csv'', ''list''])"
  by (simp add: isFuzzDomainArgs_iff)

lemma valid_registered_only:
  "isFuzzDomainArgs a \<Longrightarrow>
   property a ''registered_only'' = JUndefined \<or> (\<exists>b. property a ''registered_only'' = JBoolean b)"
  by (simp add: isFuzzDomainArgs_iff)

lemma valid_mxcheck:
  "isFuzzDomainArgs a \<Longrightarrow>
   property a ''mxcheck'' = JUndefined \<or> (\<exists>b. property a ''mxcheck'' = JBoolean b)"
  by (simp add: isFuzzDomainArgs_iff)

lemma valid_ssdeep:
  "isFuzzDomainArgs a \<Longrightarrow>
   property a ''ssdeep'' = JUndefined \<or> (\<exists>b. property a ''ssdeep'' = JBoolean b)"
  by (simp add: isFuzzDomainArgs_iff)

lemma valid_banners:
  "isFuzzDomainArgs a \<Longrightarrow>
   property a ''banners'' = JUndefined \<or> (\<exists>b. property a ''banners'' = JBoolean b)"
  by (simp add: isFuzzDomainArgs_iff)

lemma push_if_flag_default_true:
  "v = JUndefined \<or> (\<exists>b. v = JBoolean b) \<Longrightarrow>
   push_if (with_default v (JBoolean True)) ts = (if v = JBoolean False then [] else ts)"
  by (auto simp: with_default_def push_if_def)

lemma push_if_flag_default_false:
  "v = JUndefined \<or> (\<exists>b. v = JBoolean b) \<Longrightarrow>
   push_if (with_default v (JBoolean False)) ts = (if v = JBoolean True then ts else [])"
  by (auto simp: with_default_def push_if_def)

lemma push_if_nameservers:
  "v = JUndefined \<or> (\<exists>s. v = JString s) \<Longrightarrow>
   push_if (with_default v (JString ''1.1.1.1'')) ts = (if v = JString [] then [] else ts)"
  by (auto simp: with_default_def push_if_def)

lemma push_if_threads:
  "v = JUndefined \<or> (\<exists>n. v = JNumber n) \<Longrightarrow>
   push_if (with_default v (JNumber (Integral 50))) ts =
     (if v = JNumber (Integral 0) \<or> v = JNumber NaN then [] else ts)"
  by (auto simp: with_default_def push_if_def)

lemma format_default:
  "v = JUndefined \<or> (\<exists>f. v = JString f \<and> f \<in> set [''json'', ''csv'', ''list'']) \<Longrightarrow>
   \<exists>f. with_default v (JString ''json'') = JString f \<and> f \<in> set [''json'', ''csv'', ''list'']"
  by (auto simp: with_default_def)

lemma build_args_valid:
  assumes "isFuzzDomainArgs a"
  shows "build_args a =
       [property a ''domain'', JString ''--format'',
        with_default (property a ''format'') (JString ''json'')]
       @ (if property a ''registered_only'' = JBoolean False then [] else [JString ''--registered''])
       @ (if property a ''nameservers'' = JString [] then []
          else [JString ''--nameservers'',
                with_default (property a ''nameservers'') (JString ''1.1.1.1'')])
       @ (if property a ''threads'' = JNumber (Integral 0) \<or> property a ''threads'' = JNumber NaN
          then []
          else [JString ''-t'',
                JString (ToString (with_default (property a ''threads'') (JNumber (Integral 50))))])
       @ (if property a ''mxcheck'' = JBoolean False then [] else [JString ''--mxcheck''])
       @ (if property a ''ssdeep'' = JBoolean True then [JString ''--ssdeep''] else [])
       @ (if property a ''banners'' = JBoolean False then [] else [JString ''-b''])"
proof -
  note segs =
    push_if_flag_default_true [OF valid_registered_only [OF assms]]
    push_if_nameservers [OF valid_nameservers [OF assms]]
    push_if_threads [OF valid_threads [OF assms]]
    push_if_flag_default_true [OF valid_mxcheck [OF assms]]
    push_if_flag_default_false [OF valid_ssdeep [OF assms]]
    push_if_flag_default_true [OF valid_banners [OF assms]]
  show ?thesis
    unfolding build_args_def Let_def segs ..
qed

lemma execCommand_log: "snd (snd (execCommand rt c s)) = snd s @ [c]"
  by (simp add: execCommand_def split: prod.splits sum.splits)

lemma execCommand_result:
  "fst (execCommand rt c s) = (case fst (exec rt c (fst s)) of Inl m \<Rightarrow> Inl (Error m) | Inr r \<Rightarrow> Inr r)"
  by (simp add: execCommand_def split: prod.splits sum.splits)

lemma execCommand_world: "fst (snd (execCommand rt c s)) = snd (exec rt c (fst s))"
  by (simp add: execCommand_def split: prod.splits sum.splits)

lemma execCommand_eq:
  "execCommand rt c (w, log) =
     (case fst (exec rt c w) of Inl m \<Rightarrow> Inl (Error m) | Inr r \<Rightarrow> Inr r,
      (snd (exec rt c w), log @ [c]))"
  by (simp add: execCommand_def split: prod.splits sum.splits)

lemma handler_state: "snd (handler rt request s) = snd (handler_try rt request s)"
  by (simp add: handler_def split: prod.splits sum.splits)

lemma handler_thrown:
  "handler_try rt request s = (Inl e, s') \<Longrightarrow>
   handler rt request s = (error_response (error_message rt e), s')"
  by (simp add: handler_def)

lemma handler_returned:
  "handler_try rt request s = (Inr t, s') \<Longrightarrow>
   handler rt request s = (\<lparr>content = text_content t, isError = None\<rparr>, s')"
  by (simp add: handler_def)

lemma error_response_sel:
  "content (error_response m) = text_content (''Error executing dnstwist: '' @ m)"
  "isError (error_response m) = Some True"
  by (simp_all add: error_response_def)

lemma handler_try_setup_fails:
  "ensureSetup rt s = (Inl e, s1) \<Longrightarrow> handler_try rt request s = (Inl e, s1)"
  by (simp add: handler_try_def)

lemma handler_try_unknown_tool:
  "ensureSetup rt s = (Inr u, s1) \<Longrightarrow> params_name request \<noteq> ''fuzz_domain'' \<Longrightarrow>
   handler_try rt request s =
     (Inl (McpError MethodNotFound (''Unknown tool: '' @ params_name request)), s1)"
  by (simp add: handler_try_def)

lemma handler_try_invalid:
  "ensureSetup rt s = (Inr u, s1) \<Longrightarrow> params_name request = ''fuzz_domain'' \<Longrightarrow>
   \<not> isFuzzDomainArgs (params_arguments request) \<Longrightarrow>
   handler_try rt request s =
     (Inl (McpError InvalidParams ''Invalid arguments for fuzz_domain''), s1)"
  by (simp add: handler_try_def)

lemma handler_try_run_fails:
  "ensureSetup rt s = (Inr u, s1) \<Longrightarrow> params_name request = ''fuzz_domain'' \<Longrightarrow>
   isFuzzDomainArgs (params_arguments request) \<Longrightarrow>
   execCommand rt (docker_run_command (params_arguments request)) s1 = (Inl e, s2) \<Longrightarrow>
   handler_try rt request s = (Inl e, s2)"
  by (simp add: handler_try_def)

lemma handler_try_run_ok:
  "ensureSetup rt s = (Inr u, s1) \<Longrightarrow> params_name request = ''fuzz_domain'' \<Longrightarrow>
   isFuzzDomainArgs (params_arguments request) \<Longrightarrow>
   execCommand rt (docker_run_command (params_arguments request)) s1 = (Inr result, s2) \<Longrightarrow>
   handler_try rt request s = (translate rt (stdout result), s2)"
  by (simp add: handler_try_def)

lemma handler_try_not_validated:
  assumes "\<not> isFuzzDomainArgs (params_arguments request)"
  shows "snd (handler_try rt request s) = snd (ensureSetup rt s) \<and> isl (fst (handler_try rt request s))"
  using assms by (simp add: handler_try_def split: prod.splits sum.splits)

lemma sample_setup:
  "ensureSetup (sample_runtime True run parsed) (True, log) =
     (Inr (), (True, log @ [''docker --version'', ''docker image inspect elceef/dnstwist'']))"
  by (simp add: ensureSetup_def execCommand_eq DOCKER_IMAGE_def sample_runtime_def)

lemma sample_run:
  "c \<noteq> ''docker --version'' \<Longrightarrow> c \<noteq> ''docker image inspect elceef/dnstwist'' \<Longrightarrow>
   c \<noteq> ''docker pull elceef/dnstwist'' \<Longrightarrow>
   execCommand (sample_runtime True run parsed) c (w, log) =
     (case run of Inl m \<Rightarrow> Inl (Error m) | Inr r \<Rightarrow> Inr r, (w, log @ [c]))"
  by (simp add: execCommand_eq sample_runtime_def)

lemma docker_run_command_prefix:
  "docker_run_command a = ''docker run --rm elceef/dnstwist '' @ array_join '' '' (build_args a)"
  by (simp add: docker_run_command_def DOCKER_IMAGE_def)

lemma docker_run_command_not_setup:
  "docker_run_command a \<noteq> ''docker --version''"
  "docker_run_command a \<noteq> ''docker image inspect elceef/dnstwist''"
  "docker_run_command a \<noteq> ''docker pull elceef/dnstwist''"
  by (simp_all add: docker_run_command_prefix)

lemma string_of_nat_50: "string_of_nat 50 = ''50''"
  by (simp add: string_of_nat.simps [of 50] string_of_nat.simps [of 5] digit_char_def)

lemma string_of_nat_500: "string_of_nat 500 = ''500''"
  by (simp add: string_of_nat.simps [of 500] string_of_nat.simps [of 50]
      string_of_nat.simps [of 5] digit_char_def)

lemma sample_not_installed:
  "ensureSetup (sample_runtime False run parsed) (w, log) =
     (Inl (Error ''Docker is not installed or not running. Please install Docker and try again.''),
      (w, log @ [''docker --version'']))"
  by (simp add: ensureSetup_def execCommand_eq sample_runtime_def)

lemma sample_McpError_message:
  "McpError_message (sample_runtime installed run parsed) InvalidParams m = ''MCP error -32602: '' @ m"
  "McpError_message (sample_runtime installed run parsed) MethodNotFound m = ''MCP error -32601: '' @ m"
  by (simp_all add: sample_runtime_def)

lemma sample_JSON_parse:
  "JSON_parse (sample_runtime installed run parsed) out =
     (if out = [] then Inl ''Unexpected end of JSON input'' else parsed)"
  by (simp add: sample_runtime_def)

lemma docker_run_command_example_com:
  "docker_run_command (JObject [(''domain'', JString ''example.com'')]) =
     ''docker run --rm elceef/dnstwist example.com --format json --registered --nameservers 1.1.1.1 -t 50 --mxcheck -b''"
  by (simp add: docker_run_command_prefix array_join_def build_args_def with_default_def
      push_if_def string_of_nat_50)

lemma example_com_valid: "isFuzzDomainArgs (JObject [(''domain'', JString ''example.com'')])"
  by (simp add: isFuzzDomainArgs_def)

lemma docker_run_command_csv:
  "docker_run_command (JObject [(''domain'', JString ''example.com''), (''format'', JString ''csv'')]) =
     ''docker run --rm elceef/dnstwist example.com --format csv --registered --nameservers 1.1.1.1 -t 50 --mxcheck -b''"
  by (simp add: docker_run_command_prefix array_join_def build_args_def with_default_def
      push_if_def string_of_nat_50)

lemma array_join_strings: "array_join sep (map JString ts) = join_strings sep ts"
  by (simp add: array_join_def comp_def)

lemma all_strings: "\<forall>v \<in> set vs. \<exists>s. v = JString s \<Longrightarrow> \<exists>ts. vs = map JString ts"
proof (induction vs)
  case Nil
  then show ?case by simp
next
  case (Cons v vs)
  then obtain s ts where "v = JString s" "vs = map JString ts"
    by auto
  then have "v # vs = map JString (s # ts)"
    by simp
  then show ?case ..
qed

lemma build_args_strings:
  assumes "isFuzzDomainArgs a"
  shows "\<exists>ts. build_args a = map JString ts"
proof -
  from valid_domain [OF assms] obtain d where d: "property a ''domain'' = JString d" ..
  from format_default [OF valid_format [OF assms]] obtain f
    where f: "with_default (property a ''format'') (JString ''json'') = JString f"
    by blast
  have "\<exists>s. with_default (property a ''nameservers'') (JString ''1.1.1.1'') = JString s"
    using valid_nameservers [OF assms] by (auto simp: with_default_def)
  then obtain ns where ns: "with_default (property a ''nameservers'') (JString ''1.1.1.1'') = JString ns" ..
  show ?thesis
    by (rule all_strings) (simp add: build_args_valid [OF assms] d f ns)
qed

lemma sample_exec_run:
  "c \<noteq> ''docker --version'' \<Longrightarrow> c \<noteq> ''docker image inspect elceef/dnstwist'' \<Longrightarrow>
   c \<noteq> ''docker pull elceef/dnstwist'' \<Longrightarrow>
   exec (sample_runtime True run parsed) c w = (run, w)"
  by (simp add: sample_runtime_def)

lemma Integral_safe_range: "- (2 ^ 53) \<le> sint i \<and> sint i < 2 ^ 53" for i :: "54 word"
  using sint_ge [of i] sint_lt [of i] by simp

lemma build_args_two_to_60:
  "isFuzzDomainArgs (JObject [(''domain'', JString ''example.com''),
      (''threads'', JNumber (OtherDouble ''1152921504606847000''))]) \<and>
   build_args (JObject [(''domain'', JString ''example.com''),
      (''threads'', JNumber (OtherDouble ''1152921504606847000''))]) =
     map JString [''example.com'', ''--format'', ''json'', ''--registered'', ''--nameservers'',
       ''1.1.1.1'', ''-t'', ''1152921504606847000'', ''--mxcheck'', ''-b'']"
  by (simp add: isFuzzDomainArgs_def build_args_def with_default_def push_if_def)

lemma refusing_exec:
  "exec refusing_runtime ''docker --version'' w = (Inr \<lparr>stdout = [], stderr = []\<rparr>, w)"
  "exec refusing_runtime ''docker image inspect elceef/dnstwist'' w = (Inr \<lparr>stdout = [], stderr = []\<rparr>, w)"
  "c \<noteq> ''docker --version'' \<Longrightarrow> c \<noteq> ''docker image inspect elceef/dnstwist'' \<Longrightarrow>
   exec refusing_runtime c w = (Inl (''Command failed: '' @ c), w)"
  by (simp_all add: refusing_runtime_def)

lemma refusing_setup:
  "ensureSetup refusing_runtime (w, log) =
     (Inr (), (w, log @ [''docker --version'', ''docker image inspect elceef/dnstwist'']))"
  by (simp add: ensureSetup_def execCommand_eq DOCKER_IMAGE_def refusing_exec)

subsection \<open>The command builder\<close>

text \<open>
  C3. For the request whose only field is \<open>domain = "example.com"\<close>, validation passes
  and, after the defaults are applied, the argument list built is exactly
  \<open>["example.com", "--format", "json", "--registered", "--nameservers", "1.1.1.1", "-t",
  "50", "--mxcheck", "-b"]\<close>.
\<close>

theorem build_args_example_com:
  "isFuzzDomainArgs (JObject [(''domain'', JString ''example.com'')]) \<and>
   build_args (JObject [(''domain'', JString ''example.com'')]) =
     map JString [''example.com'', ''--format'', ''json'', ''--registered'',
       ''--nameservers'', ''1.1.1.1'', ''-t'', ''50'', ''--mxcheck'', ''-b'']"
  by (simp add: isFuzzDomainArgs_def build_args_def with_default_def push_if_def
      string_of_nat_50)

text \<open>
  C2. For every request that passes validation, the token list begins with exactly
  \<open>[domain, "--format", format]\<close> (the format being one of json, csv, list, json when
  absent), and what follows is exactly what the mapping table gives, in its order:
  \<open>--registered\<close>, \<open>--nameservers <value>\<close>, \<open>-t <value>\<close>, \<open>--mxcheck\<close>, \<open>--ssdeep\<close>,
  \<open>-b\<close>, each present or absent as a whole. A boolean field holding false contributes
  no token, and no other token is emitted.
\<close>

theorem build_args_follows_table:
  assumes "isFuzzDomainArgs a"
  shows "\<exists>d f.
     property a ''domain'' = JString d \<and>
     with_default (property a ''format'') (JString ''json'') = JString f \<and>
     f \<in> set [''json'', ''csv'', ''list''] \<and>
     build_args a =
       [JString d, JString ''--format'', JString f]
       @ (if property a ''registered_only'' = JBoolean False then [] else [JString ''--registered''])
       @ (if property a ''nameservers'' = JString [] then []
          else [JString ''--nameservers'',
                with_default (property a ''nameservers'') (JString ''1.1.1.1'')])
       @ (if property a ''threads'' = JNumber (Integral 0) \<or> property a ''threads'' = JNumber NaN
          then []
          else [JString ''-t'',
                JString (ToString (with_default (property a ''threads'') (JNumber (Integral 50))))])
       @ (if property a ''mxcheck'' = JBoolean False then [] else [JString ''--mxcheck''])
       @ (if property a ''ssdeep'' = JBoolean True then [JString ''--ssdeep''] else [])
       @ (if property a ''banners'' = JBoolean False then [] else [JString ''-b''])"
proof -
  from valid_domain [OF assms] obtain d where d: "property a ''domain'' = JString d" ..
  from format_default [OF valid_format [OF assms]] obtain f
    where f: "with_default (property a ''format'') (JString ''json'') = JString f"
      and f_in: "f \<in> set [''json'', ''csv'', ''list'']"
    by blast
  from build_args_valid [OF assms] d f f_in show ?thesis
    by simp
qed

theorem build_args_follows_table_witness:
  "isFuzzDomainArgs
     (JObject [(''domain'', JString ''example.com''), (''format'', JString ''csv''),
               (''registered_only'', JBoolean False), (''ssdeep'', JBoolean False)]) \<and>
   build_args
     (JObject [(''domain'', JString ''example.com''), (''format'', JString ''csv''),
               (''registered_only'', JBoolean False), (''ssdeep'', JBoolean False)]) =
     map JString [''example.com'', ''--format'', ''csv'', ''--nameservers'', ''1.1.1.1'',
       ''-t'', ''50'', ''--mxcheck'', ''-b'']"
proof -
  let ?a = "JObject [(''domain'', JString ''example.com''), (''format'', JString ''csv''),
               (''registered_only'', JBoolean False), (''ssdeep'', JBoolean False)]"
  have valid: "isFuzzDomainArgs ?a"
    by (simp add: isFuzzDomainArgs_def)
  from build_args_follows_table [OF valid] valid show ?thesis
    by (auto simp: with_default_def string_of_nat_50)
qed

subsection \<open>The environment check\<close>



subsection \<open>The threads flag\<close>




subsection \<open>Validation\<close>

text \<open>
  C4. The published schema bounds \<open>threads\<close> by 1 and 100, but \<open>isFuzzDomainArgs\<close>
  checks its type only: the request \<open>{domain: "example.com", threads: 500}\<close> passes
  validation and the command line is built with \<open>-t 500\<close>.
\<close>

theorem threads_out_of_range_accepted:
  "\<not> (threads_minimum \<le> 500 \<and> 500 \<le> threads_maximum) \<and>
   isFuzzDomainArgs (JObject [(''domain'', JString ''example.com''), (''threads'', JNumber (Integral 500))]) \<and>
   build_args (JObject [(''domain'', JString ''example.com''), (''threads'', JNumber (Integral 500))]) =
     map JString [''example.com'', ''--format'', ''json'', ''--registered'', ''--nameservers'',
       ''1.1.1.1'', ''-t'', ''500'', ''--mxcheck'', ''-b''] \<and>
   handler (sample_runtime True (prints ''[]'') (Inr (JArray [])))
     \<lparr>params_name = ''fuzz_domain'',
      params_arguments =
        JObject [(''domain'', JString ''example.com''), (''threads'', JNumber (Integral 500))]\<rparr>
     (True, []) =
     (\<lparr>content = [\<lparr>item_type = ''text'', item_text = ''[]''\<rparr>], isError = None\<rparr>,
      (True, [''docker --version'', ''docker image inspect elceef/dnstwist'',
        ''docker run --rm elceef/dnstwist example.com --format json --registered --nameservers 1.1.1.1 -t 500 --mxcheck -b'']))"
proof -
  let ?a = "JObject [(''domain'', JString ''example.com''), (''threads'', JNumber (Integral 500))]"
  have valid: "isFuzzDomainArgs ?a"
    by (simp add: isFuzzDomainArgs_def)
  have args: "build_args ?a =
     map JString [''example.com'', ''--format'', ''json'', ''--registered'', ''--nameservers'',
       ''1.1.1.1'', ''-t'', ''500'', ''--mxcheck'', ''-b'']"
    by (simp add: build_args_def with_default_def push_if_def string_of_nat_500)
  have cmd: "docker_run_command ?a =
      ''docker run --rm elceef/dnstwist example.com --format json --registered --nameservers 1.1.1.1 -t 500 --mxcheck -b''"
    by (simp add: docker_run_command_prefix args array_join_def)
  let ?rt = "sample_runtime True (prints ''[]'') (Inr (JArray []))"
  let ?request = "\<lparr>params_name = ''fuzz_domain'', params_arguments = ?a\<rparr>"
  let ?s1 = "(True, [''docker --version'', ''docker image inspect elceef/dnstwist''])"
  let ?s2 = "(True, [''docker --version'', ''docker image inspect elceef/dnstwist'',
        ''docker run --rm elceef/dnstwist example.com --format json --registered --nameservers 1.1.1.1 -t 500 --mxcheck -b''])"
  have ready: "ensureSetup ?rt (True, []) = (Inr (), ?s1)"
    using sample_setup [where log = "[]"] by simp
  have ran: "execCommand ?rt (docker_run_command (params_arguments ?request)) ?s1 =
      (Inr \<lparr>stdout = ''[]'', stderr = []\<rparr>, ?s2)"
    by (simp add: cmd sample_run prints_def)
  have printed: "translate ?rt ''[]'' = Inr ''[]''"
    by (simp add: translate_def sample_runtime_def)
  have run: "handler_try ?rt ?request (True, []) = (Inr ''[]'', ?s2)"
    using handler_try_run_ok [OF ready _ _ ran] valid printed by simp
  from valid args handler_returned [OF run] show ?thesis
    by (simp add: threads_minimum_def threads_maximum_def text_content_def)
qed


text \<open>
  C5 as the spec states it: a request whose domain is the empty string fails
  validation. The request \<open>{domain: ""}\<close> passes \<open>isFuzzDomainArgs\<close>, and the handler
  goes on to run the container with an empty first argument.
\<close>

theorem empty_domain_accepted:
  "isFuzzDomainArgs (JObject [(''domain'', JString [])]) \<and>
   snd (snd (handler (sample_runtime True (prints ''[]'') (Inr (JArray [])))
     \<lparr>params_name = ''fuzz_domain'', params_arguments = JObject [(''domain'', JString [])]\<rparr>
     (True, []))) =
     [''docker --version'', ''docker image inspect elceef/dnstwist'',
      ''docker run --rm elceef/dnstwist  --format json --registered --nameservers 1.1.1.1 -t 50 --mxcheck -b'']"
proof -
  let ?a = "JObject [(''domain'', JString [])]"
  have valid: "isFuzzDomainArgs ?a"
    by (simp add: isFuzzDomainArgs_def)
  have cmd: "docker_run_command ?a =
      ''docker run --rm elceef/dnstwist  --format json --registered --nameservers 1.1.1.1 -t 50 --mxcheck -b''"
    by (simp add: docker_run_command_prefix array_join_def build_args_def with_default_def
        push_if_def string_of_nat_50)
  show ?thesis
    unfolding handler_state
    by (simp add: valid handler_try_def sample_setup sample_run docker_run_command_not_setup
        prints_def)
       (simp add: cmd)
qed

text \<open>
  C5, amended. Validation succeeds only when the \<open>domain\<close> field is present and is a
  string (the empty string included). For every request whose domain is absent or is
  not a string, validation fails; the handler answers with the error indicator set
  and runs no command beyond those of the environment check, so no command line is
  built or executed for the request. When the environment check passed and the tool
  name is \<open>fuzz_domain\<close>, the text is that of the \<open>InvalidParams\<close> error.
\<close>

theorem domain_not_a_string_rejected:
  assumes "typeof (property (params_arguments request) ''domain'') \<noteq> ''string''"
  shows "\<not> isFuzzDomainArgs (params_arguments request) \<and>
     snd (handler rt request s) = snd (ensureSetup rt s) \<and>
     isError (fst (handler rt request s)) = Some True \<and>
     (fst (ensureSetup rt s) = Inr () \<and> params_name request = ''fuzz_domain'' \<longrightarrow>
        content (fst (handler rt request s)) =
          [\<lparr>item_type = ''text'',
            item_text = ''Error executing dnstwist: '' @
              McpError_message rt InvalidParams ''Invalid arguments for fuzz_domain''\<rparr>])"
proof -
  have invalid: "\<not> isFuzzDomainArgs (params_arguments request)"
    using assms by (auto simp: isFuzzDomainArgs_def)
  obtain e s' where thrown: "handler_try rt request s = (Inl e, s')"
    using handler_try_not_validated [OF invalid, of rt s]
    by (cases "handler_try rt request s") (auto simp: isl_def)
  have "content (fst (handler rt request s)) =
          [\<lparr>item_type = ''text'',
            item_text = ''Error executing dnstwist: '' @
              McpError_message rt InvalidParams ''Invalid arguments for fuzz_domain''\<rparr>]"
    if "fst (ensureSetup rt s) = Inr ()" "params_name request = ''fuzz_domain''"
  proof -
    from that(1) obtain s1 where "ensureSetup rt s = (Inr (), s1)"
      by (cases "ensureSetup rt s") auto
    from handler_thrown [OF handler_try_invalid [OF this that(2) invalid]] show ?thesis
      by (simp add: error_response_sel text_content_def)
  qed
  moreover have "snd (handler rt request s) = snd (ensureSetup rt s)"
    using handler_try_not_validated [OF invalid, of rt s] by (simp add: handler_state)
  moreover have "isError (fst (handler rt request s)) = Some True"
    by (simp add: handler_thrown [OF thrown] error_response_sel)
  ultimately show ?thesis
    using invalid by blast
qed

theorem domain_not_a_string_rejected_witness:
  "handler (sample_runtime True (prints ''[]'') (Inr (JArray [])))
     \<lparr>params_name = ''fuzz_domain'',
      params_arguments = JObject [(''threads'', JNumber (Integral 10))]\<rparr> (True, []) =
   (\<lparr>content = [\<lparr>item_type = ''text'',
        item_text = ''Error executing dnstwist: MCP error -32602: Invalid arguments for fuzz_domain''\<rparr>],
     isError = Some True\<rparr>,
    (True, [''docker --version'', ''docker image inspect elceef/dnstwist'']))"
proof -
  let ?rt = "sample_runtime True (prints ''[]'') (Inr (JArray []))"
  let ?request = "\<lparr>params_name = ''fuzz_domain'',
      params_arguments = JObject [(''threads'', JNumber (Integral 10))]\<rparr>"
  have absent: "typeof (property (params_arguments ?request) ''domain'') \<noteq> ''string''"
    by simp
  have ready: "ensureSetup ?rt (True, []) =
      (Inr (), (True, [''docker --version'', ''docker image inspect elceef/dnstwist'']))"
    using sample_setup [of "prints ''[]''" "Inr (JArray [])" "[]"] by simp
  have message: "McpError_message ?rt InvalidParams ''Invalid arguments for fuzz_domain'' =
      ''MCP error -32602: Invalid arguments for fuzz_domain''"
    by (simp add: sample_runtime_def)
  from domain_not_a_string_rejected [OF absent, of ?rt "(True, [])"]
  have "snd (handler ?rt ?request (True, [])) =
          (True, [''docker --version'', ''docker image inspect elceef/dnstwist''])"
    and "isError (fst (handler ?rt ?request (True, []))) = Some True"
    and "content (fst (handler ?rt ?request (True, []))) =
          [\<lparr>item_type = ''text'',
            item_text = ''Error executing dnstwist: MCP error -32602: Invalid arguments for fuzz_domain''\<rparr>]"
    unfolding ready message by simp_all
  then show ?thesis
    by (cases "handler ?rt ?request (True, [])"; cases "fst (handler ?rt ?request (True, []))")
       simp
qed

subsection \<open>Failures at the boundary\<close>

text \<open>
  C6. Every failure of an invocation is answered with an ordinary response: its
  content is the single text item \<open>Error executing dnstwist: \<close> followed by the
  failure's message, and its error indicator is set. Stage by stage: a failed
  environment check, an unknown tool name, a payload that fails validation, a
  container run that \<open>exec\<close> rejects, and output that \<^verbatim>\<open>JSON.parse\<close> rejects. Whatever
  the \<^verbatim>\<open>try\<close> block throws is caught and answered so, what it returns is answered
  without the indicator, and in every case the handler returns a response: nothing
  is raised to the transport.
\<close>

theorem every_failure_is_an_error_response:
  "(ensureSetup rt s = (Inl e, s1) \<longrightarrow>
      handler rt request s =
        (\<lparr>content = [\<lparr>item_type = ''text'',
                      item_text = ''Error executing dnstwist: '' @ error_message rt e\<rparr>],
          isError = Some True\<rparr>, s1)) \<and>
   (ensureSetup rt s = (Inr (), s1) \<and> params_name request \<noteq> ''fuzz_domain'' \<longrightarrow>
      handler rt request s =
        (\<lparr>content = [\<lparr>item_type = ''text'',
                      item_text = ''Error executing dnstwist: '' @
                        McpError_message rt MethodNotFound (''Unknown tool: '' @ params_name request)\<rparr>],
          isError = Some True\<rparr>, s1)) \<and>
   (ensureSetup rt s = (Inr (), s1) \<and> params_name request = ''fuzz_domain'' \<and>
    \<not> isFuzzDomainArgs (params_arguments request) \<longrightarrow>
      handler rt request s =
        (\<lparr>content = [\<lparr>item_type = ''text'',
                      item_text = ''Error executing dnstwist: '' @
                        McpError_message rt InvalidParams ''Invalid arguments for fuzz_domain''\<rparr>],
          isError = Some True\<rparr>, s1)) \<and>
   (ensureSetup rt s = (Inr (), s1) \<and> params_name request = ''fuzz_domain'' \<and>
    isFuzzDomainArgs (params_arguments request) \<and>
    exec rt (docker_run_command (params_arguments request)) (fst s1) = (Inl m, w2) \<longrightarrow>
      handler rt request s =
        (\<lparr>content = [\<lparr>item_type = ''text'', item_text = ''Error executing dnstwist: '' @ m\<rparr>],
          isError = Some True\<rparr>,
         (w2, snd s1 @ [docker_run_command (params_arguments request)]))) \<and>
   (ensureSetup rt s = (Inr (), s1) \<and> params_name request = ''fuzz_domain'' \<and>
    isFuzzDomainArgs (params_arguments request) \<and>
    exec rt (docker_run_command (params_arguments request)) (fst s1) = (Inr result, w2) \<and>
    JSON_parse rt (stdout result) = Inl m \<longrightarrow>
      handler rt request s =
        (\<lparr>content = [\<lparr>item_type = ''text'',
                      item_text = ''Error executing dnstwist: '' @
                        ''Failed to parse dnstwist output: '' @ SyntaxError_toString m\<rparr>],
          isError = Some True\<rparr>,
         (w2, snd s1 @ [docker_run_command (params_arguments request)]))) \<and>
   (handler_try rt request s = (Inl e, s') \<longrightarrow>
      handler rt request s =
        (\<lparr>content = [\<lparr>item_type = ''text'',
                      item_text = ''Error executing dnstwist: '' @ error_message rt e\<rparr>],
          isError = Some True\<rparr>, s')) \<and>
   (\<forall>t s'. handler_try rt request s = (Inr t, s') \<longrightarrow>
      handler rt request s =
        (\<lparr>content = [\<lparr>item_type = ''text'', item_text = t\<rparr>], isError = None\<rparr>, s')) \<and>
   (\<exists>response s'. handler rt request s = (response, s') \<and>
      (isl (fst (handler_try rt request s)) \<longrightarrow>
         isError response = Some True \<and>
         (\<exists>m. content response =
            [\<lparr>item_type = ''text'', item_text = ''Error executing dnstwist: '' @ m\<rparr>])))"
proof -
  have thrown: "handler rt request s =
        (\<lparr>content = [\<lparr>item_type = ''text'',
                      item_text = ''Error executing dnstwist: '' @ error_message rt e\<rparr>],
          isError = Some True\<rparr>, s')"
    if "handler_try rt request s = (Inl e, s')" for e s'
    using handler_thrown [OF that] by (simp add: error_response_def text_content_def)
  have returned: "handler rt request s =
        (\<lparr>content = [\<lparr>item_type = ''text'', item_text = t\<rparr>], isError = None\<rparr>, s')"
    if "handler_try rt request s = (Inr t, s')" for t s'
    using handler_returned [OF that] by (simp add: text_content_def)
  have run_fails: "handler_try rt request s =
      (Inl (Error m), (w2, snd s1 @ [docker_run_command (params_arguments request)]))"
    if "ensureSetup rt s = (Inr (), s1)" "params_name request = ''fuzz_domain''"
      "isFuzzDomainArgs (params_arguments request)"
      "exec rt (docker_run_command (params_arguments request)) (fst s1) = (Inl m, w2)" for m w2
    using that by (simp add: handler_try_def execCommand_def)
  have parse_fails: "handler_try rt request s =
      (Inl (Error (''Failed to parse dnstwist output: '' @ SyntaxError_toString m)),
       (w2, snd s1 @ [docker_run_command (params_arguments request)]))"
    if "ensureSetup rt s = (Inr (), s1)" "params_name request = ''fuzz_domain''"
      "isFuzzDomainArgs (params_arguments request)"
      "exec rt (docker_run_command (params_arguments request)) (fst s1) = (Inr result, w2)"
      "JSON_parse rt (stdout result) = Inl m" for m w2 result
    using that by (simp add: handler_try_def execCommand_def translate_def)
  have total: "\<exists>response s'. handler rt request s = (response, s') \<and>
      (isl (fst (handler_try rt request s)) \<longrightarrow>
         isError response = Some True \<and>
         (\<exists>m. content response =
            [\<lparr>item_type = ''text'', item_text = ''Error executing dnstwist: '' @ m\<rparr>]))"
  proof -
    obtain r s' where "handler_try rt request s = (r, s')"
      by (cases "handler_try rt request s")
    then show ?thesis
      by (cases r) (simp_all add: thrown returned)
  qed
  show ?thesis
    apply (intro conjI impI allI)
           apply (simp add: thrown handler_try_setup_fails)
          apply (simp add: thrown [OF handler_try_unknown_tool])
         apply (simp add: thrown [OF handler_try_invalid])
        apply (use thrown [OF run_fails] in force)
       apply (use thrown [OF parse_fails] in force)
      apply (simp add: thrown)
     apply (simp add: returned)
    apply (rule total)
    done
qed


theorem every_failure_is_an_error_response_witness:
  "handler (sample_runtime False (prints ''[]'') (Inr (JArray [])))
     \<lparr>params_name = ''fuzz_domain'',
      params_arguments = JObject [(''domain'', JString ''example.com'')]\<rparr> (False, []) =
     (\<lparr>content = [\<lparr>item_type = ''text'',
          item_text = ''Error executing dnstwist: Docker is not installed or not running. Please install Docker and try again.''\<rparr>],
       isError = Some True\<rparr>,
      (False, [''docker --version''])) \<and>
   handler (sample_runtime True (prints ''[]'') (Inr (JArray [])))
     \<lparr>params_name = ''whois'',
      params_arguments = JObject [(''domain'', JString ''example.com'')]\<rparr> (True, []) =
     (\<lparr>content = [\<lparr>item_type = ''text'',
          item_text = ''Error executing dnstwist: MCP error -32601: Unknown tool: whois''\<rparr>],
       isError = Some True\<rparr>,
      (True, [''docker --version'', ''docker image inspect elceef/dnstwist''])) \<and>
   handler (sample_runtime True (prints ''[]'') (Inr (JArray [])))
     \<lparr>params_name = ''fuzz_domain'',
      params_arguments = JObject [(''domain'', JNumber (Integral 42))]\<rparr> (True, []) =
     (\<lparr>content = [\<lparr>item_type = ''text'',
          item_text = ''Error executing dnstwist: MCP error -32602: Invalid arguments for fuzz_domain''\<rparr>],
       isError = Some True\<rparr>,
      (True, [''docker --version'', ''docker image inspect elceef/dnstwist''])) \<and>
   handler (sample_runtime True (Inl ''Command failed: no such host'') (Inr (JArray [])))
     \<lparr>params_name = ''fuzz_domain'',
      params_arguments = JObject [(''domain'', JString ''example.com'')]\<rparr> (True, []) =
     (\<lparr>content = [\<lparr>item_type = ''text'',
          item_text = ''Error executing dnstwist: Command failed: no such host''\<rparr>],
       isError = Some True\<rparr>,
      (True, [''docker --version'', ''docker image inspect elceef/dnstwist'',
        ''docker run --rm elceef/dnstwist example.com --format json --registered --nameservers 1.1.1.1 -t 50 --mxcheck -b''])) \<and>
   handler (sample_runtime True (prints ''no such host'') (Inl ''Unexpected token o in JSON at position 1''))
     \<lparr>params_name = ''fuzz_domain'',
      params_arguments = JObject [(''domain'', JString ''example.com'')]\<rparr> (True, []) =
     (\<lparr>content = [\<lparr>item_type = ''text'',
          item_text = ''Error executing dnstwist: Failed to parse dnstwist output: SyntaxError: Unexpected token o in JSON at position 1''\<rparr>],
       isError = Some True\<rparr>,
      (True, [''docker --version'', ''docker image inspect elceef/dnstwist'',
        ''docker run --rm elceef/dnstwist example.com --format json --registered --nameservers 1.1.1.1 -t 50 --mxcheck -b'']))"
proof -
  let ?a = "JObject [(''domain'', JString ''example.com'')]"
  let ?s1 = "(True, [''docker --version'', ''docker image inspect elceef/dnstwist''])"
  note sample = sample_setup [where log = "[]", simplified] sample_not_installed [where log = "[]", simplified]
    sample_McpError_message example_com_valid docker_run_command_example_com
  have w1: "handler (sample_runtime False (prints ''[]'') (Inr (JArray [])))
     \<lparr>params_name = ''fuzz_domain'', params_arguments = ?a\<rparr> (False, []) =
     (\<lparr>content = [\<lparr>item_type = ''text'',
          item_text = ''Error executing dnstwist: Docker is not installed or not running. Please install Docker and try again.''\<rparr>],
       isError = Some True\<rparr>,
      (False, [''docker --version'']))"
    using every_failure_is_an_error_response
      [where rt = "sample_runtime False (prints ''[]'') (Inr (JArray []))" and s = "(False, [])"
        and e = "Error ''Docker is not installed or not running. Please install Docker and try again.''"
        and ?s1.0 = "(False, [''docker --version''])"
        and request = "\<lparr>params_name = ''fuzz_domain'', params_arguments = ?a\<rparr>"]
    by (simp add: sample)
  have w2: "handler (sample_runtime True (prints ''[]'') (Inr (JArray [])))
     \<lparr>params_name = ''whois'', params_arguments = ?a\<rparr> (True, []) =
     (\<lparr>content = [\<lparr>item_type = ''text'',
          item_text = ''Error executing dnstwist: MCP error -32601: Unknown tool: whois''\<rparr>],
       isError = Some True\<rparr>, ?s1)"
    using every_failure_is_an_error_response
      [where rt = "sample_runtime True (prints ''[]'') (Inr (JArray []))" and s = "(True, [])"
        and ?s1.0 = ?s1
        and request = "\<lparr>params_name = ''whois'', params_arguments = ?a\<rparr>"]
    by (simp add: sample)
  have w3: "handler (sample_runtime True (prints ''[]'') (Inr (JArray [])))
     \<lparr>params_name = ''fuzz_domain'',
      params_arguments = JObject [(''domain'', JNumber (Integral 42))]\<rparr> (True, []) =
     (\<lparr>content = [\<lparr>item_type = ''text'',
          item_text = ''Error executing dnstwist: MCP error -32602: Invalid arguments for fuzz_domain''\<rparr>],
       isError = Some True\<rparr>, ?s1)"
    using every_failure_is_an_error_response
      [where rt = "sample_runtime True (prints ''[]'') (Inr (JArray []))" and s = "(True, [])"
        and ?s1.0 = ?s1
        and request = "\<lparr>params_name = ''fuzz_domain'',
          params_arguments = JObject [(''domain'', JNumber (Integral 42))]\<rparr>"]
    by (simp add: sample isFuzzDomainArgs_def)
  have w4: "handler (sample_runtime True (Inl ''Command failed: no such host'') (Inr (JArray [])))
     \<lparr>params_name = ''fuzz_domain'', params_arguments = ?a\<rparr> (True, []) =
     (\<lparr>content = [\<lparr>item_type = ''text'',
          item_text = ''Error executing dnstwist: Command failed: no such host''\<rparr>],
       isError = Some True\<rparr>,
      (True, [''docker --version'', ''docker image inspect elceef/dnstwist'',
        ''docker run --rm elceef/dnstwist example.com --format json --registered --nameservers 1.1.1.1 -t 50 --mxcheck -b'']))"
    using every_failure_is_an_error_response
      [where rt = "sample_runtime True (Inl ''Command failed: no such host'') (Inr (JArray []))"
        and s = "(True, [])" and ?s1.0 = ?s1 and ?w2.0 = True
        and m = "''Command failed: no such host''"
        and request = "\<lparr>params_name = ''fuzz_domain'', params_arguments = ?a\<rparr>"]
    by (simp add: sample sample_exec_run)
  have w5: "handler (sample_runtime True (prints ''no such host'') (Inl ''Unexpected token o in JSON at position 1''))
     \<lparr>params_name = ''fuzz_domain'', params_arguments = ?a\<rparr> (True, []) =
     (\<lparr>content = [\<lparr>item_type = ''text'',
          item_text = ''Error executing dnstwist: Failed to parse dnstwist output: SyntaxError: Unexpected token o in JSON at position 1''\<rparr>],
       isError = Some True\<rparr>,
      (True, [''docker --version'', ''docker image inspect elceef/dnstwist'',
        ''docker run --rm elceef/dnstwist example.com --format json --registered --nameservers 1.1.1.1 -t 50 --mxcheck -b'']))"
    using every_failure_is_an_error_response
      [where rt = "sample_runtime True (prints ''no such host'') (Inl ''Unexpected token o in JSON at position 1'')"
        and s = "(True, [])" and ?s1.0 = ?s1 and ?w2.0 = True
        and result = "\<lparr>stdout = ''no such host'', stderr = []\<rparr>"
        and m = "''Unexpected token o in JSON at position 1''"
        and request = "\<lparr>params_name = ''fuzz_domain'', params_arguments = ?a\<rparr>"]
    by (simp add: sample sample_exec_run prints_def sample_JSON_parse SyntaxError_toString_def)
  from w1 w2 w3 w4 w5 show ?thesis
    by (intro conjI)
qed


subsection \<open>Translating the output\<close>

text \<open>
  C7 as the spec states it: the error for unparseable output carries the raw text.
  The message is built from the parser's error alone. For the output \<open>{\<close> the raw
  text does not occur in it, whether the parser words its error as older or as newer
  versions of the engine do.
\<close>

theorem parse_error_omits_raw_output:
  "translate (sample_runtime True (prints ''{'') (Inl ''Unexpected end of JSON input'')) ''{'' =
     Inl (Error ''Failed to parse dnstwist output: SyntaxError: Unexpected end of JSON input'') \<and>
   \<not> sublist ''{'' ''Failed to parse dnstwist output: SyntaxError: Unexpected end of JSON input'' \<and>
   translate (sample_runtime True (prints ''{'')
       (Inl ''Expected property name or '}' in JSON at position 1 (line 1 column 2)'')) ''{'' =
     Inl (Error ''Failed to parse dnstwist output: SyntaxError: Expected property name or '}' in JSON at position 1 (line 1 column 2)'') \<and>
   \<not> sublist ''{''
     ''Failed to parse dnstwist output: SyntaxError: Expected property name or '}' in JSON at position 1 (line 1 column 2)''"
  by (simp add: translate_def sample_JSON_parse SyntaxError_toString_def sublist_code(3))

text \<open>
  C7, amended. For every captured output that is not parseable structured data under
  format json (\<^verbatim>\<open>JSON.parse\<close> rejects it; the empty string is such an output), the
  translation fails with an error whose message is \<open>Failed to parse dnstwist output: \<close>
  followed by the text of the parser's error, and no partial result is returned: the
  response is that message alone behind the prefix \<open>Error executing dnstwist: \<close>, with
  the error indicator set.
\<close>

theorem unparseable_output_fails:
  assumes "params_name request = ''fuzz_domain''"
    and "isFuzzDomainArgs (params_arguments request)"
    and "with_default (property (params_arguments request) ''format'') (JString ''json'') = JString ''json''"
    and "ensureSetup rt s = (Inr (), s1)"
    and "exec rt (docker_run_command (params_arguments request)) (fst s1) = (Inr result, w2)"
    and "JSON_parse rt (stdout result) = Inl m"
  shows "translate rt (stdout result) =
       Inl (Error (''Failed to parse dnstwist output: '' @ SyntaxError_toString m)) \<and>
     handler rt request s =
       (\<lparr>content = [\<lparr>item_type = ''text'',
                     item_text = ''Error executing dnstwist: '' @
                       ''Failed to parse dnstwist output: '' @ SyntaxError_toString m\<rparr>],
         isError = Some True\<rparr>,
        (w2, snd s1 @ [docker_run_command (params_arguments request)]))"
proof -
  have failed: "translate rt (stdout result) =
       Inl (Error (''Failed to parse dnstwist output: '' @ SyntaxError_toString m))"
    using assms(6) by (simp add: translate_def)
  have "execCommand rt (docker_run_command (params_arguments request)) s1 =
      (Inr result, (w2, snd s1 @ [docker_run_command (params_arguments request)]))"
    using assms(5) by (simp add: execCommand_def)
  from handler_try_run_ok [OF assms(4) assms(1) assms(2) this] failed
  have "handler_try rt request s =
      (Inl (Error (''Failed to parse dnstwist output: '' @ SyntaxError_toString m)),
       (w2, snd s1 @ [docker_run_command (params_arguments request)]))"
    by simp
  from handler_thrown [OF this] failed show ?thesis
    by (simp add: error_response_def text_content_def)
qed

theorem unparseable_output_fails_witness:
  "handler (sample_runtime True (prints []) (Inr (JArray [])))
     \<lparr>params_name = ''fuzz_domain'',
      params_arguments = JObject [(''domain'', JString ''example.com'')]\<rparr> (True, []) =
     (\<lparr>content = [\<lparr>item_type = ''text'',
          item_text = ''Error executing dnstwist: Failed to parse dnstwist output: SyntaxError: Unexpected end of JSON input''\<rparr>],
       isError = Some True\<rparr>,
      (True, [''docker --version'', ''docker image inspect elceef/dnstwist'',
        ''docker run --rm elceef/dnstwist example.com --format json --registered --nameservers 1.1.1.1 -t 50 --mxcheck -b'']))"
proof -
  let ?rt = "sample_runtime True (prints []) (Inr (JArray []))"
  let ?a = "JObject [(''domain'', JString ''example.com'')]"
  let ?request = "\<lparr>params_name = ''fuzz_domain'', params_arguments = ?a\<rparr>"
  let ?s1 = "(True, [''docker --version'', ''docker image inspect elceef/dnstwist''])"
  have name: "params_name ?request = ''fuzz_domain''"
    by simp
  have valid: "isFuzzDomainArgs (params_arguments ?request)"
    by (simp add: example_com_valid)
  have json: "with_default (property (params_arguments ?request) ''format'') (JString ''json'') =
      JString ''json''"
    by (simp add: with_default_def)
  have ready: "ensureSetup ?rt (True, []) = (Inr (), ?s1)"
    using sample_setup [where log = "[]"] by simp
  have ran: "exec ?rt (docker_run_command (params_arguments ?request)) (fst ?s1) =
      (Inr \<lparr>stdout = [], stderr = []\<rparr>, True)"
    by (simp add: docker_run_command_example_com sample_exec_run prints_def)
  have rejected: "JSON_parse ?rt (stdout \<lparr>stdout = [], stderr = []\<rparr>) =
      Inl ''Unexpected end of JSON input''"
    by (simp add: sample_JSON_parse)
  from unparseable_output_fails [OF name valid json ready ran rejected] show ?thesis
    by (simp add: SyntaxError_toString_def docker_run_command_example_com)
qed


text \<open>
  C1. The handler parses the captured output as JSON whatever the format: for a
  validated request with format csv or list whose output \<^verbatim>\<open>JSON.parse\<close> rejects, as it
  does CSV and plain lists, the response is the parse error, not the raw text.
\<close>

theorem csv_and_list_output_is_parsed:
  assumes "params_name request = ''fuzz_domain''"
    and "isFuzzDomainArgs (params_arguments request)"
    and "property (params_arguments request) ''format'' = JString ''csv'' \<or>
         property (params_arguments request) ''format'' = JString ''list''"
    and "ensureSetup rt s = (Inr (), s1)"
    and "execCommand rt (docker_run_command (params_arguments request)) s1 = (Inr result, s2)"
    and "JSON_parse rt (stdout result) = Inl m"
  shows "handler rt request s =
     (\<lparr>content = [\<lparr>item_type = ''text'',
                   item_text = ''Error executing dnstwist: '' @
                     ''Failed to parse dnstwist output: '' @ SyntaxError_toString m\<rparr>],
       isError = Some True\<rparr>, s2)"
proof -
  have "translate rt (stdout result) =
      Inl (Error (''Failed to parse dnstwist output: '' @ SyntaxError_toString m))"
    using assms(6) by (simp add: translate_def)
  with handler_try_run_ok [OF assms(4) assms(1) assms(2) assms(5)]
  have "handler_try rt request s =
      (Inl (Error (''Failed to parse dnstwist output: '' @ SyntaxError_toString m)), s2)"
    by simp
  from handler_thrown [OF this] show ?thesis
    by (simp add: error_response_def text_content_def)
qed

theorem csv_and_list_output_is_parsed_witness:
  "\<forall>m. handler
     (sample_runtime True (prints ''fuzzer,domain\<newline>*original,example.com\<newline>'') (Inl m))
     \<lparr>params_name = ''fuzz_domain'',
      params_arguments = JObject [(''domain'', JString ''example.com''), (''format'', JString ''csv'')]\<rparr>
     (True, []) =
     (\<lparr>content = [\<lparr>item_type = ''text'',
                   item_text = ''Error executing dnstwist: '' @
                     ''Failed to parse dnstwist output: '' @ SyntaxError_toString m\<rparr>],
       isError = Some True\<rparr>,
      (True, [''docker --version'', ''docker image inspect elceef/dnstwist'',
        ''docker run --rm elceef/dnstwist example.com --format csv --registered --nameservers 1.1.1.1 -t 50 --mxcheck -b'']))"
proof
  fix m
  let ?out = "''fuzzer,domain\<newline>*original,example.com\<newline>''"
  let ?rt = "sample_runtime True (prints ?out) (Inl m)"
  let ?a = "JObject [(''domain'', JString ''example.com''), (''format'', JString ''csv'')]"
  let ?request = "\<lparr>params_name = ''fuzz_domain'', params_arguments = ?a\<rparr>"
  let ?s1 = "(True, [''docker --version'', ''docker image inspect elceef/dnstwist''])"
  let ?cmd = "''docker run --rm elceef/dnstwist example.com --format csv --registered --nameservers 1.1.1.1 -t 50 --mxcheck -b''"
  have name: "params_name ?request = ''fuzz_domain''"
    by simp
  have valid: "isFuzzDomainArgs (params_arguments ?request)"
    by (simp add: isFuzzDomainArgs_def)
  have csv: "property (params_arguments ?request) ''format'' = JString ''csv'' \<or>
      property (params_arguments ?request) ''format'' = JString ''list''"
    by simp
  have ready: "ensureSetup ?rt (True, []) = (Inr (), ?s1)"
    using sample_setup [where log = "[]"] by simp
  have run: "execCommand ?rt (docker_run_command (params_arguments ?request)) ?s1 =
      (Inr \<lparr>stdout = ?out, stderr = []\<rparr>,
       (True, [''docker --version'', ''docker image inspect elceef/dnstwist'', ?cmd]))"
    by (simp add: docker_run_command_csv sample_run prints_def)
  have rejected: "JSON_parse ?rt (stdout \<lparr>stdout = ?out, stderr = []\<rparr>) = Inl m"
    by (simp add: sample_JSON_parse)
  from csv_and_list_output_is_parsed [OF name valid csv ready run rejected]
  show "handler ?rt ?request (True, []) =
     (\<lparr>content = [\<lparr>item_type = ''text'',
                   item_text = ''Error executing dnstwist: '' @
                     ''Failed to parse dnstwist output: '' @ SyntaxError_toString m\<rparr>],
       isError = Some True\<rparr>,
      (True, [''docker --version'', ''docker image inspect elceef/dnstwist'', ?cmd]))" .
qed


subsection \<open>The command that is executed\<close>

text \<open>
  C10. For a validated request the command line handed to \<open>exec\<close> is
  \<open>docker run --rm elceef/dnstwist\<close> followed by the tokens joined by single spaces,
  each token copied as it is, with no quoting or escaping: the response and the world
  after the call are what \<open>exec\<close> makes of that very string. Token boundaries are
  therefore lost: two validated requests with different domains and different token
  lists, one of them with a domain containing spaces, hand \<open>exec\<close> the very same
  string, so the domain of that request is not passed as one positional argument.
\<close>

theorem command_is_unquoted_join:
  "(isFuzzDomainArgs (params_arguments request) \<and> params_name request = ''fuzz_domain'' \<and>
    ensureSetup rt s = (Inr (), s1) \<longrightarrow>
      (\<exists>tokens. build_args (params_arguments request) = map JString tokens \<and>
         handler rt request s =
           (let command = ''docker run --rm elceef/dnstwist '' @ join_strings '' '' tokens
            in case exec rt command (fst s1) of
                 (Inl m, w2) \<Rightarrow>
                   (\<lparr>content = [\<lparr>item_type = ''text'',
                                 item_text = ''Error executing dnstwist: '' @ m\<rparr>],
                     isError = Some True\<rparr>,
                    (w2, snd s1 @ [command]))
               | (Inr result, w2) \<Rightarrow>
                   (case translate rt (stdout result) of
                      Inl e \<Rightarrow>
                        \<lparr>content = [\<lparr>item_type = ''text'',
                                     item_text = ''Error executing dnstwist: '' @ error_message rt e\<rparr>],
                         isError = Some True\<rparr>
                    | Inr t \<Rightarrow>
                        \<lparr>content = [\<lparr>item_type = ''text'', item_text = t\<rparr>], isError = None\<rparr>,
                    (w2, snd s1 @ [command]))))) \<and>
   isFuzzDomainArgs (JObject [(''domain'', JString ''example.com''),
      (''nameservers'', JString ''1.1.1.1 --format json''), (''registered_only'', JBoolean False)]) \<and>
   isFuzzDomainArgs (JObject [(''domain'', JString ''example.com --format json --nameservers 1.1.1.1''),
      (''nameservers'', JString []), (''registered_only'', JBoolean False)]) \<and>
   build_args (JObject [(''domain'', JString ''example.com''),
      (''nameservers'', JString ''1.1.1.1 --format json''), (''registered_only'', JBoolean False)]) =
     map JString [''example.com'', ''--format'', ''json'', ''--nameservers'',
       ''1.1.1.1 --format json'', ''-t'', ''50'', ''--mxcheck'', ''-b''] \<and>
   build_args (JObject [(''domain'', JString ''example.com --format json --nameservers 1.1.1.1''),
      (''nameservers'', JString []), (''registered_only'', JBoolean False)]) =
     map JString [''example.com --format json --nameservers 1.1.1.1'', ''--format'', ''json'',
       ''-t'', ''50'', ''--mxcheck'', ''-b''] \<and>
   join_strings '' '' [''example.com'', ''--format'', ''json'', ''--nameservers'',
       ''1.1.1.1 --format json'', ''-t'', ''50'', ''--mxcheck'', ''-b''] =
     ''example.com --format json --nameservers 1.1.1.1 --format json -t 50 --mxcheck -b'' \<and>
   join_strings '' '' [''example.com --format json --nameservers 1.1.1.1'', ''--format'', ''json'',
       ''-t'', ''50'', ''--mxcheck'', ''-b''] =
     ''example.com --format json --nameservers 1.1.1.1 --format json -t 50 --mxcheck -b'' \<and>
   docker_run_command (JObject [(''domain'', JString ''example.com''),
      (''nameservers'', JString ''1.1.1.1 --format json''), (''registered_only'', JBoolean False)]) =
     docker_run_command (JObject [(''domain'', JString ''example.com --format json --nameservers 1.1.1.1''),
      (''nameservers'', JString []), (''registered_only'', JBoolean False)])"
proof (intro conjI impI)
  assume ok: "isFuzzDomainArgs (params_arguments request) \<and> params_name request = ''fuzz_domain'' \<and>
    ensureSetup rt s = (Inr (), s1)"
  then obtain tokens where tokens: "build_args (params_arguments request) = map JString tokens"
    using build_args_strings by blast
  let ?command = "''docker run --rm elceef/dnstwist '' @ join_strings '' '' tokens"
  have command: "docker_run_command (params_arguments request) = ?command"
    by (simp add: docker_run_command_prefix tokens array_join_strings)
  obtain r w2 where run: "exec rt ?command (fst s1) = (r, w2)"
    by (cases "exec rt ?command (fst s1)")
  have body: "handler_try rt request s =
      (case r of Inl m \<Rightarrow> Inl (Error m) | Inr result \<Rightarrow> translate rt (stdout result),
       (w2, snd s1 @ [?command]))"
    using ok run
    by (cases r) (simp_all add: handler_try_def command execCommand_def)
  have "handler rt request s =
      (case exec rt ?command (fst s1) of
         (Inl m, w2) \<Rightarrow>
           (\<lparr>content = [\<lparr>item_type = ''text'', item_text = ''Error executing dnstwist: '' @ m\<rparr>],
             isError = Some True\<rparr>,
            (w2, snd s1 @ [?command]))
       | (Inr result, w2) \<Rightarrow>
           (case translate rt (stdout result) of
              Inl e \<Rightarrow>
                \<lparr>content = [\<lparr>item_type = ''text'',
                             item_text = ''Error executing dnstwist: '' @ error_message rt e\<rparr>],
                 isError = Some True\<rparr>
            | Inr t \<Rightarrow> \<lparr>content = [\<lparr>item_type = ''text'', item_text = t\<rparr>], isError = None\<rparr>,
            (w2, snd s1 @ [?command])))"
    unfolding run
    by (cases r)
       (simp_all add: handler_def body error_response_def text_content_def split: sum.splits)
  with tokens show "\<exists>tokens. build_args (params_arguments request) = map JString tokens \<and>
         handler rt request s =
           (let command = ''docker run --rm elceef/dnstwist '' @ join_strings '' '' tokens
            in case exec rt command (fst s1) of
                 (Inl m, w2) \<Rightarrow>
                   (\<lparr>content = [\<lparr>item_type = ''text'',
                                 item_text = ''Error executing dnstwist: '' @ m\<rparr>],
                     isError = Some True\<rparr>,
                    (w2, snd s1 @ [command]))
               | (Inr result, w2) \<Rightarrow>
                   (case translate rt (stdout result) of
                      Inl e \<Rightarrow>
                        \<lparr>content = [\<lparr>item_type = ''text'',
                                     item_text = ''Error executing dnstwist: '' @ error_message rt e\<rparr>],
                         isError = Some True\<rparr>
                    | Inr t \<Rightarrow>
                        \<lparr>content = [\<lparr>item_type = ''text'', item_text = t\<rparr>], isError = None\<rparr>,
                    (w2, snd s1 @ [command])))"
    unfolding Let_def by blast
qed (simp_all add: isFuzzDomainArgs_def docker_run_command_prefix array_join_def build_args_def
      with_default_def push_if_def string_of_nat_50)

theorem command_is_unquoted_join_witness:
  "handler refusing_runtime
     \<lparr>params_name = ''fuzz_domain'',
      params_arguments = JObject [(''domain'', JString ''example.com; id'')]\<rparr> (True, []) =
   (\<lparr>content = [\<lparr>item_type = ''text'',
        item_text = ''Error executing dnstwist: Command failed: docker run --rm elceef/dnstwist example.com; id --format json --registered --nameservers 1.1.1.1 -t 50 --mxcheck -b''\<rparr>],
     isError = Some True\<rparr>,
    (True, [''docker --version'', ''docker image inspect elceef/dnstwist'',
      ''docker run --rm elceef/dnstwist example.com; id --format json --registered --nameservers 1.1.1.1 -t 50 --mxcheck -b'']))"
proof -
  let ?a = "JObject [(''domain'', JString ''example.com; id'')]"
  let ?request = "\<lparr>params_name = ''fuzz_domain'', params_arguments = ?a\<rparr>"
  let ?s1 = "(True, [''docker --version'', ''docker image inspect elceef/dnstwist''])"
  let ?ts = "[''example.com; id'', ''--format'', ''json'',
      ''--registered'', ''--nameservers'', ''1.1.1.1'', ''-t'', ''50'', ''--mxcheck'', ''-b'']"
  have ok: "isFuzzDomainArgs (params_arguments ?request) \<and> params_name ?request = ''fuzz_domain'' \<and>
      ensureSetup refusing_runtime (True, []) = (Inr (), ?s1)"
    using refusing_setup [where log = "[]"] by (simp add: isFuzzDomainArgs_def)
  have args: "build_args ?a = map JString ?ts"
    by (simp add: build_args_def with_default_def push_if_def string_of_nat_50)
  from command_is_unquoted_join
    [where request = ?request and rt = refusing_runtime and s = "(True, [])" and ?s1.0 = ?s1] ok
  obtain tokens where built: "build_args ?a = map JString tokens"
    and answer: "handler refusing_runtime ?request (True, []) =
      (let command = ''docker run --rm elceef/dnstwist '' @ join_strings '' '' tokens
       in case exec refusing_runtime command (fst ?s1) of
            (Inl m, w2) \<Rightarrow>
              (\<lparr>content = [\<lparr>item_type = ''text'', item_text = ''Error executing dnstwist: '' @ m\<rparr>],
                isError = Some True\<rparr>,
               (w2, snd ?s1 @ [command]))
          | (Inr result, w2) \<Rightarrow>
              (case translate refusing_runtime (stdout result) of
                 Inl e \<Rightarrow>
                   \<lparr>content = [\<lparr>item_type = ''text'',
                                item_text = ''Error executing dnstwist: '' @
                                  error_message refusing_runtime e\<rparr>],
                    isError = Some True\<rparr>
               | Inr t \<Rightarrow> \<lparr>content = [\<lparr>item_type = ''text'', item_text = t\<rparr>], isError = None\<rparr>,
               (w2, snd ?s1 @ [command])))"
    by auto
  from built args have "map JString tokens = map JString ?ts"
    by simp
  moreover have "inj JString"
    by (simp add: inj_on_def)
  ultimately have "tokens = ?ts"
    by (simp only: inj_map_eq_map)
  with answer show ?thesis
    by (simp add: Let_def refusing_exec)
qed


end
